theory Spec2Isabelle
  imports Complex_Main
begin

section \<open>Binary64 floating-point values\<close>

text \<open>
  The pipeline computes with pandas \<open>float64\<close> columns. A value of such a column is a
  finite double (modelled by the rational number it denotes exactly), an infinity, or NaN.
  The sign of zero is not represented: no operation of the pipeline tells \<open>-0.0\<close> from
  \<open>0.0\<close> (they compare equal, and \<open>pd.cut\<close> only compares).
\<close>

datatype f64 = Fin rat | PInf | NInf | NaN

text \<open>Number of binary digits of a positive integer.\<close>

function bitlen :: "int \<Rightarrow> nat" where
  "bitlen n = (if n \<le> 0 then 0 else Suc (bitlen (n div 2)))"
  by pat_completeness auto
termination
  by (relation "measure nat") auto

declare bitlen.simps [simp del]

definition pow2 :: "int \<Rightarrow> rat" where
  "pow2 e = (if 0 \<le> e then 2 ^ nat e else 1 / 2 ^ nat (- e))"

text \<open>\<open>ilog2 a\<close> is the binary exponent of a positive rational: \<open>2^e \<le> a < 2^(e+1)\<close>.\<close>

definition ilog2 :: "rat \<Rightarrow> int" where
  "ilog2 a = (if 1 \<le> a then int (bitlen \<lfloor>a\<rfloor>) - 1
              else - int (bitlen (\<lceil>1 / a\<rceil> - 1)))"

definition round_half_even :: "rat \<Rightarrow> int" where
  "round_half_even m =
     (let f = \<lfloor>m\<rfloor>; d = m - of_int f
      in if d < 1 / 2 then f
         else if 1 / 2 < d then f + 1
         else if even f then f else f + 1)"

text \<open>
  Rounding of an exact rational to the nearest double, ties to even: 53 significant bits,
  least exponent \<open>-1022\<close> (below it the spacing stays \<open>2^-1074\<close>: subnormals), overflow to
  an infinity from \<open>2^1024\<close> on. This is what a Python float literal, \<open>float(str)\<close> and
  a float division produce from the exact value.
\<close>

definition round64 :: "rat \<Rightarrow> f64" where
  "round64 x =
     (if x = 0 then Fin 0
      else
        let a = \<bar>x\<bar>;
            e = max (ilog2 a) (- 1022);
            n = round_half_even (a / pow2 (e - 52))
        in if 1023 < e \<or> (e = 1023 \<and> n = 2 ^ 53)
           then (if 0 < x then PInf else NInf)
           else Fin ((if 0 < x then 1 else - 1) * of_int n * pow2 (e - 52)))"

text \<open>The comparison \<open><\<close> of doubles: every comparison with NaN is false.\<close>

fun f64_less :: "f64 \<Rightarrow> f64 \<Rightarrow> bool" where
  "f64_less NaN y = False"
| "f64_less x NaN = False"
| "f64_less (Fin a) (Fin b) = (a < b)"
| "f64_less x NInf = False"
| "f64_less NInf y = True"
| "f64_less PInf y = False"
| "f64_less (Fin a) PInf = True"

text \<open>Series division by the integer 100 (\<open>series / 100\<close>), on one element.\<close>

fun fdiv100 :: "f64 \<Rightarrow> f64" where
  "fdiv100 (Fin r) = round64 (r / 100)"
| "fdiv100 x = x"

section \<open>The classifier: \<open>pd.cut\<close> over the fixed bins\<close>

text \<open>
  \<open>color_ranges = [-10, -5, -0.01, 0, 0.01, 5, 10]\<close>: pandas turns the list into a
  \<open>float64\<close> array, so every edge is the double nearest to the literal.
\<close>

definition color_ranges :: "f64 list" where
  "color_ranges = map round64 [- 10, - 5, - (1 / 100), 0, 1 / 100, 5, 10]"

definition color_labels :: "string list" where
  "color_labels = [''red'', ''indianred'', ''lightpink'', ''lightgreen'', ''lime'', ''green'']"

text \<open>
  \<open>numpy.searchsorted(bins, x, side='left')\<close> on increasing bins: the number of edges
  strictly below \<open>x\<close>.
\<close>

definition searchsorted_left :: "f64 list \<Rightarrow> f64 \<Rightarrow> nat" where
  "searchsorted_left bins x = length (takeWhile (\<lambda>b. f64_less b x) bins)"

text \<open>
  \<open>pd.cut(x, bins, labels)\<close> with its defaults \<open>right=True\<close>,
  \<open>include_lowest=False\<close>, on one element: the bins are \<open>(b\<^sub>i, b\<^sub>i\<^sub>+\<^sub>1]\<close>; NaN and every
  value outside \<open>(b\<^sub>0, b\<^sub>n]\<close> get the missing category (\<open>None\<close>), without an error.
\<close>

definition pd_cut1 :: "f64 list \<Rightarrow> string list \<Rightarrow> f64 \<Rightarrow> string option" where
  "pd_cut1 bins labels x =
     (let i = searchsorted_left bins x
      in if x = NaN \<or> i = 0 \<or> i = length bins then None
         else Some (labels ! (i - 1)))"

definition pd_cut :: "f64 list \<Rightarrow> string list \<Rightarrow> f64 list \<Rightarrow> string option list" where
  "pd_cut bins labels xs = map (pd_cut1 bins labels) xs"

definition classify :: "f64 \<Rightarrow> string option" where
  "classify x = pd_cut1 color_ranges color_labels x"

text \<open>
  The specification names the six categories in bin order; the source names them by their
  colours, in the same order.
\<close>

definition deep_negative :: string where "deep_negative = color_labels ! 0"
definition mild_negative :: string where "mild_negative = color_labels ! 1"
definition near_zero_negative :: string where "near_zero_negative = color_labels ! 2"
definition near_zero_positive :: string where "near_zero_positive = color_labels ! 3"
definition mild_positive :: string where "mild_positive = color_labels ! 4"
definition strong_positive :: string where "strong_positive = color_labels ! 5"

section \<open>Strings and the number parser\<close>

text \<open>
  \<open>str.replace(old, new)\<close> with a one-character pattern, as the source calls it
  (\<open>'%'\<close>, \<open>','\<close>, \<open>'.'\<close>; pandas takes a one-character pattern literally). The
  conversion of a string to a double follows, as \<open>float(str)\<close> does it for
  \<open>astype('float64')\<close> and as \<open>pd.to_numeric\<close> does it: surrounding white space, a
  sign, then \<open>inf\<close>, \<open>infinity\<close> or \<open>nan\<close> in any case, or a decimal numeral with an
  optional fraction and an optional exponent; the exact decimal value is rounded to the
  nearest double. \<open>None\<close> is the conversion's failure. Digit-group underscores, which
  Python's \<open>float\<close> also accepts, are left out.
\<close>

definition str_replace :: "char \<Rightarrow> string \<Rightarrow> string \<Rightarrow> string" where
  "str_replace old new s = concat (map (\<lambda>c. if c = old then new else [c]) s)"

definition is_digit :: "char \<Rightarrow> bool" where
  "is_digit c = (c \<in> set ''0123456789'')"

definition is_space :: "char \<Rightarrow> bool" where
  "is_space c = (c \<in> set [CHR '' '', CHR 0x09, CHR 0x0A, CHR 0x0B, CHR 0x0C, CHR 0x0D])"

definition digit_val :: "char \<Rightarrow> nat" where
  "digit_val c = of_char c - 48"

definition digits_val :: "string \<Rightarrow> nat" where
  "digits_val ds = foldl (\<lambda>a c. 10 * a + digit_val c) 0 ds"

definition strip :: "string \<Rightarrow> string" where
  "strip s = rev (dropWhile is_space (rev (dropWhile is_space s)))"

definition lower :: "char \<Rightarrow> char" where
  "lower c = (let n = (of_char c :: nat) in if 65 \<le> n \<and> n \<le> 90 then char_of (n + 32) else c)"

definition scale10 :: "rat \<Rightarrow> int \<Rightarrow> rat" where
  "scale10 q k = (if 0 \<le> k then q * 10 ^ nat k else q / 10 ^ nat (- k))"

definition split_sign :: "string \<Rightarrow> bool \<times> string" where
  "split_sign s = (case s of [] \<Rightarrow> (False, [])
     | c # r \<Rightarrow> if c = CHR ''-'' then (True, r) else if c = CHR ''+'' then (False, r) else (False, s))"

definition parse_exponent :: "string \<Rightarrow> int option" where
  "parse_exponent s =
     (case s of [] \<Rightarrow> Some 0
      | _ # r \<Rightarrow>
         (let (neg, ds) = split_sign r
          in if ds \<noteq> [] \<and> list_all is_digit ds
             then Some (if neg then - int (digits_val ds) else int (digits_val ds))
             else None))"

definition parse_mantissa :: "string \<Rightarrow> (nat \<times> nat) option" where
  "parse_mantissa s =
     (let ip = takeWhile (\<lambda>c. c \<noteq> CHR ''.'') s;
          fp = drop 1 (dropWhile (\<lambda>c. c \<noteq> CHR ''.'') s)
      in if list_all is_digit ip \<and> list_all is_digit fp \<and> (ip \<noteq> [] \<or> fp \<noteq> [])
         then Some (digits_val (ip @ fp), length fp)
         else None)"

definition is_exp_char :: "char \<Rightarrow> bool" where
  "is_exp_char c = (c = CHR ''e'' \<or> c = CHR ''E'')"

definition parse_unsigned :: "bool \<Rightarrow> string \<Rightarrow> f64 option" where
  "parse_unsigned neg u =
     (if map lower u = ''inf'' \<or> map lower u = ''infinity'' then Some (if neg then NInf else PInf)
      else if map lower u = ''nan'' then Some NaN
      else
        (case parse_mantissa (takeWhile (\<lambda>c. \<not> is_exp_char c) u) of
           None \<Rightarrow> None
         | Some (m, k) \<Rightarrow>
            (case parse_exponent (dropWhile (\<lambda>c. \<not> is_exp_char c) u) of
               None \<Rightarrow> None
             | Some ex \<Rightarrow>
                Some (round64 (scale10 (if neg then - of_nat m else of_nat m) (ex - int k))))))"

definition float_of_string :: "string \<Rightarrow> f64 option" where
  "float_of_string s = (let (neg, u) = split_sign (strip s) in parse_unsigned neg u)"

section \<open>Tables, series and exceptions\<close>

text \<open>
  A cell of an \<open>object\<close> column is a Python string or a float (a missing HTML cell is the
  float NaN). A column of a table has dtype \<open>float64\<close> (standing for \<open>int64\<close> as well) or
  \<open>object\<close>. A table is a dictionary from column names to columns of one length.
\<close>

datatype cell = is_Str: Str string | is_Num: Num f64

datatype series = Float64 "f64 list" | Object "cell list"

type_synonym table = "(string \<times> series) list"

datatype exn = RequestException | ValueError | IndexError | KeyError | TypeError | AttributeError

definition ebind :: "exn + 'a \<Rightarrow> ('a \<Rightarrow> exn + 'b) \<Rightarrow> exn + 'b" where
  "ebind r f = (case r of Inl e \<Rightarrow> Inl e | Inr x \<Rightarrow> f x)"

text \<open>\<open>tables[i]\<close>: an index out of range raises IndexError.\<close>

definition getitem_list :: "'a list \<Rightarrow> nat \<Rightarrow> exn + 'a" where
  "getitem_list xs i = (if i < length xs then Inr (xs ! i) else Inl IndexError)"

text \<open>\<open>table[name]\<close>: a missing column raises KeyError.\<close>

definition getitem :: "table \<Rightarrow> string \<Rightarrow> exn + series" where
  "getitem t name = (case map_of t name of None \<Rightarrow> Inl KeyError | Some s \<Rightarrow> Inr s)"

text \<open>\<open>table[name] = series\<close>: replaces the column, or appends it.\<close>

fun setitem :: "table \<Rightarrow> string \<Rightarrow> series \<Rightarrow> table" where
  "setitem [] name s = [(name, s)]"
| "setitem ((n, c) # t) name s = (if n = name then (n, s) # t else (n, c) # setitem t name s)"

text \<open>The column names of the source, as UTF-8 bytes.\<close>

definition col_Kod :: string where "col_Kod = ''Kod''"
definition col_Sektor :: string where "col_Sektor = ''Sekt'' @ [CHR 0xC3, CHR 0xB6] @ ''r''"
definition col_Piyasa :: string where
  "col_Piyasa = ''Piyasa De'' @ [CHR 0xC4, CHR 0x9F] @ ''eri (mn $)''"
definition col_Gunluk :: string where
  "col_Gunluk = ''G'' @ [CHR 0xC3, CHR 0xBC] @ ''nl'' @ [CHR 0xC3, CHR 0xBC] @ ''k Getiri (%)''"
definition col_Hisse :: string where "col_Hisse = ''Hisse''"
definition col_Getiri :: string where "col_Getiri = ''Getiri (%)''"
definition col_Renk :: string where "col_Renk = ''Renk''"

section \<open>The pandas operations the pipeline calls\<close>

fun cells_of :: "series \<Rightarrow> cell list" where
  "cells_of (Float64 xs) = map Num xs"
| "cells_of (Object cs) = cs"

text \<open>The float behind a cell; only columns without strings are read this way.\<close>

fun float_of_cell :: "cell \<Rightarrow> f64" where
  "float_of_cell (Num x) = x"
| "float_of_cell (Str s) = NaN"

definition float_values :: "series \<Rightarrow> f64 list" where
  "float_values s = map float_of_cell (cells_of s)"

text \<open>
  \<open>series / 100\<close>, element by element. A float is divided; a string raises TypeError
  (\<open>unsupported operand type(s) for /: 'str' and 'int'\<close>).
\<close>

fun truediv100 :: "series \<Rightarrow> exn + series" where
  "truediv100 (Float64 xs) = Inr (Float64 (map fdiv100 xs))"
| "truediv100 (Object cs) =
     (if list_ex is_Str cs then Inl TypeError
      else Inr (Object (map (\<lambda>c. Num (fdiv100 (float_of_cell c))) cs)))"

text \<open>
  The \<open>.str\<close> accessor exists on an \<open>object\<close> column whose inferred type is string, mixed
  or empty (no value but NaN); on any other column it raises AttributeError.
\<close>

definition str_accessor_ok :: "cell list \<Rightarrow> bool" where
  "str_accessor_ok cs = (list_ex is_Str cs \<or> list_all (\<lambda>c. c = Num NaN) cs)"

text \<open>\<open>series.str.replace(old, new)\<close>: a cell that is not a string becomes NaN.\<close>

fun cell_str_replace :: "char \<Rightarrow> string \<Rightarrow> cell \<Rightarrow> cell" where
  "cell_str_replace old new (Str s) = Str (str_replace old new s)"
| "cell_str_replace old new (Num x) = Num NaN"

fun series_str_replace :: "char \<Rightarrow> string \<Rightarrow> series \<Rightarrow> exn + series" where
  "series_str_replace old new (Float64 xs) = Inl AttributeError"
| "series_str_replace old new (Object cs) =
     (if str_accessor_ok cs then Inr (Object (map (cell_str_replace old new) cs))
      else Inl AttributeError)"

text \<open>\<open>pd.to_numeric(series, errors='coerce')\<close>: a string that does not convert becomes NaN.\<close>

fun coerce_cell :: "cell \<Rightarrow> f64" where
  "coerce_cell (Str s) = (case float_of_string s of Some x \<Rightarrow> x | None \<Rightarrow> NaN)"
| "coerce_cell (Num x) = x"

fun to_numeric_coerce :: "series \<Rightarrow> series" where
  "to_numeric_coerce (Float64 xs) = Float64 xs"
| "to_numeric_coerce (Object cs) = Float64 (map coerce_cell cs)"

text \<open>\<open>series.astype('float64')\<close>: a string that does not convert raises ValueError.\<close>

fun converts :: "cell \<Rightarrow> bool" where
  "converts (Str s) = (float_of_string s \<noteq> None)"
| "converts (Num x) = True"

fun astype_float64 :: "series \<Rightarrow> exn + series" where
  "astype_float64 (Float64 xs) = Inr (Float64 xs)"
| "astype_float64 (Object cs) =
     (if list_all converts cs then Inr (Float64 (map coerce_cell cs)) else Inl ValueError)"

text \<open>Selection of rows by position (the rows a join keeps).\<close>

fun take_rows :: "nat list \<Rightarrow> series \<Rightarrow> series" where
  "take_rows idx (Float64 xs) = Float64 (map (\<lambda>i. xs ! i) idx)"
| "take_rows idx (Object cs) = Object (map (\<lambda>i. cs ! i) idx)"

text \<open>
  The row pairs of an inner join on one key column: every pair of a left and a right row
  with equal keys, in the order of the left rows (NaN keys match each other in a pandas
  merge). No deduplication: a key that occurs \<open>m\<close> times on the left and \<open>n\<close> times on the
  right gives \<open>m * n\<close> pairs.
\<close>

definition join_idx :: "cell list \<Rightarrow> cell list \<Rightarrow> (nat \<times> nat) list" where
  "join_idx lk rk =
     concat (map (\<lambda>i. map (Pair i) (filter (\<lambda>j. rk ! j = lk ! i) [0..<length rk]))
       [0..<length lk])"

text \<open>
  pandas refuses to merge a key column that holds strings with a numeric one (ValueError),
  unless one of the two is empty.
\<close>

fun key_dtype_conflict :: "series \<Rightarrow> series \<Rightarrow> bool" where
  "key_dtype_conflict (Object cs) (Float64 xs) = (cs \<noteq> [] \<and> xs \<noteq> [] \<and> list_ex is_Str cs)"
| "key_dtype_conflict (Float64 xs) (Object cs) = (cs \<noteq> [] \<and> xs \<noteq> [] \<and> list_ex is_Str cs)"
| "key_dtype_conflict l r = False"

text \<open>
  The frames of the pipeline: \<open>sector_df\<close> (ticker, sector, market value) and
  \<open>return_df\<close> (ticker, return) as tuples of columns, the merged frame as a record.
\<close>

type_synonym sector_df = "series \<times> series \<times> series"
type_synonym return_df = "series \<times> series"

record merged =
  Hisse :: series
  Sektor :: series
  Piyasa :: series
  Getiri :: series

record dataframe = merged +
  Renk :: "string option list"

text \<open>\<open>pd.merge(sector_df, return_df, on="Hisse")\<close>: an inner join.\<close>

definition pd_merge :: "sector_df \<Rightarrow> return_df \<Rightarrow> exn + merged" where
  "pd_merge sector_df return_df =
     (case sector_df of (lk, ls, lm) \<Rightarrow>
      case return_df of (rk, rg) \<Rightarrow>
        if key_dtype_conflict lk rk then Inl ValueError
        else
          let ps = join_idx (cells_of lk) (cells_of rk)
          in Inr \<lparr>Hisse = take_rows (map fst ps) lk,
                  Sektor = take_rows (map fst ps) ls,
                  Piyasa = take_rows (map fst ps) lm,
                  Getiri = take_rows (map snd ps) rg\<rparr>)"

section \<open>\<open>fetch_and_process_data\<close>\<close>

text \<open>Lines 27 to 32: the sector table is the third table of the page.\<close>

definition build_sector :: "table list \<Rightarrow> exn + sector_df" where
  "build_sector tables =
     ebind (getitem_list tables 2) (\<lambda>sector_table.
     ebind (getitem sector_table col_Kod) (\<lambda>k.
     ebind (getitem sector_table col_Sektor) (\<lambda>s.
     ebind (getitem sector_table col_Piyasa) (\<lambda>m.
     Inr (k, s, m)))))"

text \<open>Lines 37 to 40, the body of the inner \<open>try\<close>: the return column is taken as numeric.\<close>

definition return_primary :: "table \<Rightarrow> exn + return_df" where
  "return_primary return_table =
     ebind (getitem return_table col_Kod) (\<lambda>k.
     ebind (getitem return_table col_Gunluk) (\<lambda>g.
     ebind (truediv100 g) (\<lambda>q.
     Inr (k, q))))"

text \<open>
  Lines 42 to 49, the handler of \<open>except TypeError\<close>: the percent sign is removed, the
  comma becomes a dot, the column is coerced to numbers and stored back in the table, and
  the frame is built as in the primary path.
\<close>

definition clean_percent :: "series \<Rightarrow> exn + series" where
  "clean_percent g =
     ebind (series_str_replace (CHR ''%'') [] g) (\<lambda>a.
     series_str_replace (CHR '','') ''.'' a)"

definition return_fallback :: "table \<Rightarrow> exn + return_df" where
  "return_fallback return_table =
     ebind (getitem return_table col_Gunluk) (\<lambda>g.
     ebind (clean_percent g) (\<lambda>b.
       let return_table' = setitem return_table col_Gunluk (to_numeric_coerce b)
       in ebind (getitem return_table' col_Kod) (\<lambda>k.
          ebind (getitem return_table' col_Gunluk) (\<lambda>g'.
          ebind (truediv100 g') (\<lambda>q.
          Inr (k, q))))))"

text \<open>Lines 36 to 49: the fallback runs when, and only when, the primary path raises TypeError.\<close>

definition build_return :: "table \<Rightarrow> exn + return_df" where
  "build_return return_table =
     (case return_primary return_table of
        Inl e \<Rightarrow> if e = TypeError then return_fallback return_table else Inl e
      | Inr r \<Rightarrow> Inr r)"

text \<open>Line 53: the market value column, from the regional format to \<open>float64\<close>.\<close>

definition parse_market_value :: "series \<Rightarrow> exn + series" where
  "parse_market_value m =
     ebind (series_str_replace (CHR ''.'') [] m) (\<lambda>a.
     ebind (series_str_replace (CHR '','') ''.'' a) (\<lambda>b.
     astype_float64 b))"

text \<open>Lines 55 to 57: the colour column.\<close>

definition add_renk :: "merged \<Rightarrow> dataframe" where
  "add_renk df = merged.extend df
     (dataframe.fields (pd_cut color_ranges color_labels (float_values (Getiri df))))"

text \<open>Lines 27 to 59, the body of the outer \<open>try\<close> once the tables are extracted.\<close>

definition process_tables :: "table list \<Rightarrow> exn + dataframe" where
  "process_tables tables =
     ebind (build_sector tables) (\<lambda>sector_df.
     ebind (getitem_list tables 6) (\<lambda>return_table.
     ebind (build_return return_table) (\<lambda>return_df.
     ebind (pd_merge sector_df return_df) (\<lambda>df.
     ebind (parse_market_value (Piyasa df)) (\<lambda>mv.
     Inr (add_renk (df\<lparr>Piyasa := mv\<rparr>)))))))"

text \<open>
  The whole function. Its argument is the outcome of lines 21 to 26 (the HTTP request,
  \<open>raise_for_status\<close> and \<open>pd.read_html\<close>, given primitives): the extracted tables, or the
  exception one of them raised. The handler of \<open>except Exception\<close> logs the exception, shows
  it, and returns None; the result pairs the exception the handler reported (if any) with
  the value returned.
\<close>

definition fetch_and_process_data :: "exn + table list \<Rightarrow> exn option \<times> dataframe option" where
  "fetch_and_process_data fetched =
     (case ebind fetched process_tables of
        Inl e \<Rightarrow> (Some e, None)
      | Inr df \<Rightarrow> (None, Some df))"

section \<open>\<open>create_treemap\<close>\<close>

text \<open>
  The function builds the chart with one call of \<open>px.treemap\<close> and sets two templates on
  the result. The chart specification modelled here is what the repository decides: the
  arguments of that call and the templates. How plotly lays the figure out is not part of
  the repository.
\<close>

datatype path_item = Constant string | Column string

record treemap_call =
  tm_data_frame :: dataframe
  tm_path :: "path_item list"
  tm_values :: string
  tm_color :: string
  tm_custom_data :: "string list"
  tm_color_discrete_map :: "(string \<times> string) list"
  tm_hovertemplate :: string
  tm_texttemplate :: string

text \<open>Python's \<open>sep.join(parts)\<close>.\<close>

fun join_with :: "string \<Rightarrow> string list \<Rightarrow> string" where
  "join_with sep [] = []"
| "join_with sep [p] = p"
| "join_with sep (p # q # ps) = p @ sep @ join_with sep (q # ps)"

definition color_map :: "(string \<times> string) list" where
  "color_map =
     [(''(?)'', ''#262931''),
      (''red'', ''red''),
      (''indianred'', ''indianred''),
      (''lightpink'', ''lightpink''),
      (''lightgreen'', ''lightgreen''),
      (''lime'', ''lime''),
      (''green'', ''green'')]"

definition root_label :: string where
  "root_label = ''Borsa '' @ [CHR 0xC4, CHR 0xB0] @ ''stanbul''"

definition create_treemap :: "dataframe \<Rightarrow> treemap_call" where
  "create_treemap df =
     \<lparr>tm_data_frame = df,
      tm_path = [Constant root_label, Column col_Sektor, Column col_Hisse],
      tm_values = col_Piyasa,
      tm_color = col_Renk,
      tm_custom_data = [col_Getiri, col_Sektor],
      tm_color_discrete_map = color_map,
      tm_hovertemplate = join_with ''<br>''
        [''Hisse: %{label}'',
         col_Piyasa @ '': %{value}'',
         ''Getiri: %{customdata[0]}'',
         col_Sektor @ '': %{customdata[1]}''],
      tm_texttemplate = ''<b>%{label}</b><br>%{customdata[0]} %''\<rparr>"

text \<open>The columns of the frame, by name (\<open>df[name]\<close>); the missing category is NaN.\<close>

fun cell_of_category :: "string option \<Rightarrow> cell" where
  "cell_of_category None = Num NaN"
| "cell_of_category (Some l) = Str l"

definition df_column :: "dataframe \<Rightarrow> string \<Rightarrow> cell list option" where
  "df_column df name =
     (if name = col_Hisse then Some (cells_of (Hisse df))
      else if name = col_Sektor then Some (cells_of (Sektor df))
      else if name = col_Piyasa then Some (cells_of (Piyasa df))
      else if name = col_Getiri then Some (cells_of (Getiri df))
      else if name = col_Renk then Some (map cell_of_category (Renk df))
      else None)"

text \<open>
  What the call hands to plotly for the record at position \<open>i\<close>: its path from the root
  to the leaf, its size, its colour key and its custom data.
\<close>

record chart_row =
  row_path :: "cell list"
  row_size :: cell
  row_color :: cell
  row_custom :: "cell list"

definition entry :: "dataframe \<Rightarrow> nat \<Rightarrow> string \<Rightarrow> cell" where
  "entry df i name = (case df_column df name of Some cs \<Rightarrow> cs ! i | None \<Rightarrow> Num NaN)"

fun path_entry :: "dataframe \<Rightarrow> nat \<Rightarrow> path_item \<Rightarrow> cell" where
  "path_entry df i (Constant c) = Str c"
| "path_entry df i (Column name) = entry df i name"

definition chart_row_at :: "treemap_call \<Rightarrow> nat \<Rightarrow> chart_row" where
  "chart_row_at c i =
     \<lparr>row_path = map (path_entry (tm_data_frame c) i) (tm_path c),
      row_size = entry (tm_data_frame c) i (tm_values c),
      row_color = entry (tm_data_frame c) i (tm_color c),
      row_custom = map (entry (tm_data_frame c) i) (tm_custom_data c)\<rparr>"

definition chart_rows :: "treemap_call \<Rightarrow> chart_row list" where
  "chart_rows c = map (chart_row_at c) [0..<length (cells_of (Hisse (tm_data_frame c)))]"

text \<open>
  The colour plotly's discrete map gives a colour key: the keys of the map are strings, so
  the missing category (NaN) is no key of it.
\<close>

fun mapped_color :: "treemap_call \<Rightarrow> cell \<Rightarrow> string option" where
  "mapped_color c (Str l) = map_of (tm_color_discrete_map c) l"
| "mapped_color c (Num x) = None"




section \<open>Notions of the specification\<close>

text \<open>
  A region-formatted numeral, as the specification describes it: groups of digits
  separated by the thousands separator \<open>.\<close>, then the decimal separator \<open>,\<close> and the
  fraction digits. \<open>region_value\<close> is the double nearest to the number it denotes.
\<close>

definition region_string :: "string list \<times> string \<Rightarrow> string" where
  "region_string r = join_with ''.'' (fst r) @ '','' @ snd r"

definition region_ok :: "string list \<times> string \<Rightarrow> bool" where
  "region_ok r =
     (concat (fst r) \<noteq> [] \<and> list_all (list_all is_digit) (fst r) \<and> list_all is_digit (snd r))"

definition region_value :: "string list \<times> string \<Rightarrow> f64" where
  "region_value r =
     round64 (of_nat (digits_val (concat (fst r) @ snd r)) / 10 ^ length (snd r))"

text \<open>
  What the two replacements of the fallback path do to one string, and the relation
  between a number and a percentage string that renders it.
\<close>

definition clean_percent_string :: "string \<Rightarrow> string" where
  "clean_percent_string s = str_replace (CHR '','') ''.'' (str_replace (CHR ''%'') [] s)"



section \<open>Example pages\<close>

text \<open>
  Two pages of seven tables. The third table is the sector table, the seventh the return
  table. In the first page every market value parses; in the second the market value of
  the ticker BBB is the text \<open>-\<close> (a dash).
\<close>

definition return_table_example :: table where
  "return_table_example =
     [(col_Kod, Object [Str ''AAA'', Str ''BBB'']),
      (col_Gunluk, Object [Str ''2,50%'', Str ''1,00%''])]"

definition tables_good :: "table list" where
  "tables_good =
     [[], [],
      [(col_Kod, Object [Str ''AAA'', Str ''BBB'']),
       (col_Sektor, Object [Str ''Tech'', Str ''Bank'']),
       (col_Piyasa, Object [Str ''1.234.500,00'', Str ''0,00''])],
      [], [], [], return_table_example]"


text \<open>The frame \<open>fetch_and_process_data\<close> returns for the first page.\<close>

definition df_good :: dataframe where
  "df_good =
     \<lparr>Hisse = Object [Str ''AAA'', Str ''BBB''],
      Sektor = Object [Str ''Tech'', Str ''Bank''],
      Piyasa = Float64 [Fin 1234500, Fin 0],
      Getiri = Float64 [Fin (3602879701896397 / 144115188075855872),
                        Fin (5764607523034235 / 576460752303423488)],
      Renk = [Some ''lime'', Some ''lightgreen'']\<rparr>"

section \<open>Evaluation rules\<close>

lemma bitlen_numeral: "bitlen (numeral k) = Suc (bitlen (numeral k div 2))"
  by (subst bitlen.simps) simp

lemma bitlen_0: "bitlen 0 = 0"
  by (subst bitlen.simps) simp

lemma bitlen_1: "bitlen 1 = 1"
  by (subst bitlen.simps, simp, subst bitlen.simps, simp)

lemma floor_rat_numeral: "\<lfloor>numeral a / numeral b :: rat\<rfloor> = numeral a div numeral b"
  using floor_divide_of_int_eq [of "numeral a" "numeral b", where ?'a = rat] by simp

lemma ceiling_rat_numeral:
  "\<lceil>numeral a / numeral b :: rat\<rceil> = - (- numeral a div numeral b)"
  using floor_divide_of_int_eq [of "- numeral a" "numeral b", where ?'a = rat]
  by (simp add: ceiling_def)

lemma floor_rat_one: "\<lfloor>1 / numeral b :: rat\<rfloor> = 1 div numeral b"
  using floor_divide_of_int_eq [of 1 "numeral b", where ?'a = rat] by simp

lemma ceiling_rat_one: "\<lceil>1 / numeral b :: rat\<rceil> = - (- 1 div numeral b)"
  using floor_divide_of_int_eq [of "- 1" "numeral b", where ?'a = rat]
  by (simp add: ceiling_def)

lemmas f64_eval = round64_def ilog2_def pow2_def round_half_even_def Let_def
  bitlen_numeral bitlen_0 bitlen_1
  floor_rat_numeral ceiling_rat_numeral floor_rat_one ceiling_rat_one

lemma round64_0: "round64 0 = Fin 0"
  by (simp add: round64_def)

lemma round64_5: "round64 5 = Fin 5"
  by (simp add: f64_eval)

lemma round64_10: "round64 10 = Fin 10"
  by (simp add: f64_eval)

lemma round64_hundredth: "round64 (1 / 100) = Fin (5764607523034235 / 576460752303423488)"
  by (simp add: f64_eval)

lemma round64_neg_5: "round64 (- 5) = Fin (- 5)"
  by (simp add: f64_eval)

lemma round64_neg_10: "round64 (- 10) = Fin (- 10)"
  by (simp add: f64_eval)

lemma round64_neg_hundredth:
  "round64 (- (1 / 100)) = Fin (- (5764607523034235 / 576460752303423488))"
  by (simp add: f64_eval)

lemma color_ranges_eval:
  "color_ranges = [Fin (- 10), Fin (- 5), Fin (- (5764607523034235 / 576460752303423488)),
     Fin 0, Fin (5764607523034235 / 576460752303423488), Fin 5, Fin 10]"
  by (simp add: color_ranges_def round64_0 round64_5 round64_10 round64_hundredth
      round64_neg_5 round64_neg_10 round64_neg_hundredth)

lemmas classify_eval = classify_def pd_cut1_def searchsorted_left_def color_ranges_eval
  color_labels_def Let_def

section \<open>The binary exponent is the right one\<close>

text \<open>
  For every positive rational, \<open>ilog2\<close> is the exponent of the binade that holds it, so
  \<open>round64\<close> rounds at the spacing of that binade.
\<close>

lemma bitlen_pos: "0 < n \<Longrightarrow> bitlen n = Suc (bitlen (n div 2))"
  by (subst bitlen.simps) simp

lemma bitlen_bounds: "0 < n \<Longrightarrow> 2 ^ (bitlen n - 1) \<le> n \<and> n < 2 ^ bitlen n"
proof (induction n rule: bitlen.induct)
  case (1 n)
  show ?case
  proof (cases "n div 2 = 0")
    case True
    with 1(2) have "n = 1" by presburger
    then show ?thesis by (simp add: bitlen_1)
  next
    case False
    with 1(2) have pos: "0 < n div 2" by presburger
    from 1(2) have "\<not> n \<le> 0" by simp
    from 1(1)[OF this pos]
    have ih: "2 ^ (bitlen (n div 2) - 1) \<le> n div 2" "n div 2 < 2 ^ bitlen (n div 2)"
      by simp_all
    have b: "bitlen (n div 2) = Suc (bitlen (n div 2) - 1)"
      using pos by (simp add: bitlen_pos)
    have "2 ^ bitlen (n div 2) \<le> 2 * (n div 2)"
      using ih(1) by (subst b) simp
    then have lo: "2 ^ bitlen (n div 2) \<le> n"
      by presburger
    have "n div 2 + 1 \<le> 2 ^ bitlen (n div 2)"
      using ih(2) by simp
    then have "2 * (n div 2) + 2 \<le> 2 * 2 ^ bitlen (n div 2)"
      by simp
    then have hi: "n < 2 * 2 ^ bitlen (n div 2)"
      by presburger
    from lo hi show ?thesis
      using 1(2) by (simp add: bitlen_pos)
  qed
qed

lemma ilog2_bounds:
  assumes "0 < a"
  shows "pow2 (ilog2 a) \<le> a \<and> a < pow2 (ilog2 a + 1)"
proof (cases "1 \<le> a")
  case True
  define n where "n = \<lfloor>a\<rfloor>"
  have n: "1 \<le> n" using True by (simp add: n_def le_floor_iff)
  then have bb: "2 ^ (bitlen n - 1) \<le> n" "n < 2 ^ bitlen n"
    using bitlen_bounds[of n] by simp_all
  have bp: "1 \<le> bitlen n" using n by (simp add: bitlen_pos)
  have e: "ilog2 a = int (bitlen n) - 1"
    using True by (simp add: ilog2_def n_def)
  have "rat_of_int (2 ^ (bitlen n - 1)) \<le> of_int n"
    using bb(1) by (simp only: of_int_le_iff)
  also have "\<dots> \<le> a" by (simp add: n_def)
  finally have lo: "2 ^ (bitlen n - 1) \<le> a" by simp
  have "a < of_int n + 1" unfolding n_def using floor_correct[of a] by simp
  also have "rat_of_int n + 1 \<le> of_int (2 ^ bitlen n)"
    using bb(2) by (metis of_int_1 of_int_add of_int_le_iff zless_imp_add1_zle)
  finally have hi: "a < 2 ^ bitlen n" by simp
  have "nat (int (bitlen n) - 1) = bitlen n - 1" by simp
  with lo hi bp show ?thesis
    by (simp add: e pow2_def)
next
  case False
  define c where "c = \<lceil>1 / a\<rceil>"
  have inv: "1 < 1 / a" using False assms by simp
  then have c2: "2 \<le> c" by (simp add: c_def le_ceiling_iff)
  then have bb: "2 ^ (bitlen (c - 1) - 1) \<le> c - 1" "c - 1 < 2 ^ bitlen (c - 1)"
    using bitlen_bounds[of "c - 1"] by simp_all
  have bp: "1 \<le> bitlen (c - 1)" using c2 by (simp add: bitlen_pos)
  have e: "ilog2 a = - int (bitlen (c - 1))"
    using False by (simp add: ilog2_def c_def)
  have "1 / a \<le> of_int c" by (simp add: c_def)
  also have "rat_of_int c \<le> of_int (2 ^ bitlen (c - 1))"
    using bb(2) by (simp only: of_int_le_iff)
  finally have "1 / a \<le> 2 ^ bitlen (c - 1)" by simp
  then have lo: "1 / 2 ^ bitlen (c - 1) \<le> a"
    using assms by (simp add: field_simps)
  have "rat_of_int (2 ^ (bitlen (c - 1) - 1)) \<le> of_int (c - 1)"
    using bb(1) by (simp only: of_int_le_iff)
  also have "rat_of_int (c - 1) < 1 / a"
    unfolding c_def using ceiling_correct[of "1 / a"] by simp
  finally have "2 ^ (bitlen (c - 1) - 1) < 1 / a" by simp
  then have hi: "a < 1 / 2 ^ (bitlen (c - 1) - 1)"
    using assms by (simp add: field_simps)
  show ?thesis
  proof (cases "bitlen (c - 1) = 1")
    case True
    with lo hi show ?thesis by (simp add: e pow2_def)
  next
    case False
    with bp have "nat (int (bitlen (c - 1)) - 1) = bitlen (c - 1) - 1" "1 < bitlen (c - 1)"
      by simp_all
    with lo hi show ?thesis by (simp add: e pow2_def)
  qed
qed

lemmas parse_eval = float_of_string_def parse_unsigned_def parse_mantissa_def parse_exponent_def
  split_sign_def strip_def is_exp_char_def scale10_def lower_def digits_val_def digit_val_def
  is_space_def is_digit_def Let_def

section \<open>Properties of the string operations and of the parser\<close>

lemma str_replace_append:
  "str_replace old new (s @ t) = str_replace old new s @ str_replace old new t"
  by (simp add: str_replace_def)

lemma str_replace_absent: "old \<notin> set s \<Longrightarrow> str_replace old new s = s"
  by (induction s) (auto simp: str_replace_def)

lemma str_replace_Cons:
  "str_replace old new (c # s) = (if c = old then new else [c]) @ str_replace old new s"
  by (simp add: str_replace_def)

lemma str_replace_Nil: "str_replace old new [] = []"
  by (simp add: str_replace_def)

lemma digit_not_special:
  "is_digit c \<Longrightarrow> c \<noteq> CHR ''.'' \<and> c \<noteq> CHR '','' \<and> c \<noteq> CHR ''-'' \<and> c \<noteq> CHR ''+''
     \<and> \<not> is_space c \<and> \<not> is_exp_char c \<and> lower c = c"
  by (auto simp: is_digit_def is_space_def is_exp_char_def lower_def)

lemma digits_no_char:
  "list_all is_digit ds \<Longrightarrow> \<not> is_digit c \<Longrightarrow> c \<notin> set ds"
  by (auto simp: list_all_iff)

lemma not_digit_dot: "\<not> is_digit (CHR ''.'')"
  by (simp add: is_digit_def)

lemma not_digit_comma: "\<not> is_digit (CHR '','')"
  by (simp add: is_digit_def)

lemma join_with_dot_removed:
  "list_all (list_all is_digit) gs \<Longrightarrow> str_replace (CHR ''.'') [] (join_with ''.'' gs) = concat gs"
proof (induction gs rule: induct_list012)
  case (3 p q ps)
  then show ?case
    by (simp add: str_replace_append str_replace_absent digits_no_char not_digit_dot
        str_replace_Cons)
qed (simp_all add: str_replace_Nil str_replace_absent digits_no_char not_digit_dot)

text \<open>A plain decimal numeral converts to the double nearest to its value.\<close>

lemma strip_digits:
  assumes "s \<noteq> []" "\<not> is_space (hd s)" "\<not> is_space (last s)"
  shows "strip s = s"
proof -
  from assms obtain c t where s: "s = c # t" by (cases s) auto
  with assms have a: "dropWhile is_space s = s" by simp
  from assms have "rev s \<noteq> []" "\<not> is_space (hd (rev s))" by (simp_all add: hd_rev)
  then have "dropWhile is_space (rev s) = rev s" by (cases "rev s") auto
  with a show ?thesis by (simp add: strip_def)
qed

lemma not_exp_dot: "\<not> is_exp_char (CHR ''.'')"
  by (simp add: is_exp_char_def)

lemma float_of_string_decimal:
  assumes ip: "list_all is_digit ip" "ip \<noteq> []" and fp: "list_all is_digit fp"
  shows "float_of_string (ip @ ''.'' @ fp)
         = Some (round64 (of_nat (digits_val (ip @ fp)) / 10 ^ length fp))"
proof -
  let ?s = "ip @ ''.'' @ fp"
  from ip obtain c t where ipc: "ip = c # t" by (cases ip) auto
  with ip have c: "is_digit c" by simp
  have nsp_last: "\<not> is_space (last ?s)"
  proof (cases "fp = []")
    case True
    then show ?thesis by (simp add: is_space_def)
  next
    case False
    with fp have "is_digit (last fp)" by (simp add: list_all_iff)
    with False show ?thesis by (simp add: digit_not_special)
  qed
  have st: "strip ?s = ?s"
    by (rule strip_digits) (use ipc c nsp_last in \<open>simp_all add: digit_not_special\<close>)
  have sg: "split_sign ?s = (False, ?s)"
    using ipc c by (simp add: split_sign_def digit_not_special)
  have "lower c = c" "c \<noteq> CHR ''i''" "c \<noteq> CHR ''n''"
    using c by (auto simp: digit_not_special is_digit_def)
  then have nm: "map lower ?s \<noteq> ''inf''" "map lower ?s \<noteq> ''infinity''" "map lower ?s \<noteq> ''nan''"
    using ipc by auto
  have all: "\<forall>x\<in>set ?s. \<not> is_exp_char x"
    using ip fp by (auto simp: list_all_iff digit_not_special not_exp_dot)
  have tw: "takeWhile (\<lambda>c. \<not> is_exp_char c) ?s = ?s"
    using all by (simp only: takeWhile_eq_all_conv[THEN iffD2])
  have dw: "dropWhile (\<lambda>c. \<not> is_exp_char c) ?s = []"
    using all by (simp only: dropWhile_eq_Nil_conv[THEN iffD2])
  have t2: "takeWhile (\<lambda>c. c \<noteq> CHR ''.'') ?s = ip"
    using ip by (subst takeWhile_append2) (auto simp: list_all_iff digit_not_special)
  have d2: "dropWhile (\<lambda>c. c \<noteq> CHR ''.'') ?s = ''.'' @ fp"
    using ip by (subst dropWhile_append2) (auto simp: list_all_iff digit_not_special)
  have pm: "parse_mantissa ?s = Some (digits_val (ip @ fp), length fp)"
    unfolding parse_mantissa_def t2 d2 using ip fp by simp
  have pe: "parse_exponent [] = Some 0"
    by (simp add: parse_exponent_def)
  show ?thesis
    unfolding float_of_string_def st sg
    using nm by (simp add: parse_unsigned_def tw dw pm pe scale10_def del: append.simps append_Cons append_Nil)
qed

lemma str_accessor_ok_strings: "str_accessor_ok (map (\<lambda>x. Str (f x)) xs)"
  by (cases xs) (simp_all add: str_accessor_ok_def)

section \<open>Properties of the table operations\<close>

lemma getitem_setitem_same: "getitem (setitem t name s) name = Inr s"
  by (induction t) (auto simp: getitem_def)

lemma getitem_setitem_other: "m \<noteq> name \<Longrightarrow> getitem (setitem t name s) m = getitem t m"
  by (induction t) (auto simp: getitem_def)

lemma getitem_cases:
  "(getitem t name = Inl KeyError \<Longrightarrow> P) \<Longrightarrow> (\<And>s. getitem t name = Inr s \<Longrightarrow> P) \<Longrightarrow> P"
  by (cases "map_of t name") (simp_all add: getitem_def)

lemma col_Kod_Gunluk: "col_Kod \<noteq> col_Gunluk"
  by (simp add: col_Kod_def col_Gunluk_def)



section \<open>The example pages, evaluated\<close>

lemma upt_2: "[0..<2] = [0, 1]"
  by (simp add: upt_rec)

lemmas col_defs = col_Kod_def col_Sektor_def col_Piyasa_def col_Gunluk_def col_Hisse_def
  col_Getiri_def col_Renk_def

lemma build_return_example:
  "build_return return_table_example
   = Inr (Object [Str ''AAA'', Str ''BBB''],
          Float64 [Fin (3602879701896397 / 144115188075855872),
                   Fin (5764607523034235 / 576460752303423488)])"
  by (simp add: build_return_def return_primary_def return_fallback_def clean_percent_def
      return_table_example_def getitem_def ebind_def col_defs str_accessor_ok_def
      str_replace_def parse_eval f64_eval)


lemma build_sector_good:
  "build_sector tables_good
   = Inr (Object [Str ''AAA'', Str ''BBB''], Object [Str ''Tech'', Str ''Bank''],
          Object [Str ''1.234.500,00'', Str ''0,00''])"
  by (simp add: build_sector_def tables_good_def getitem_list_def getitem_def ebind_def
      col_defs)

lemma pd_merge_example:
  "pd_merge (Object [Str ''AAA'', Str ''BBB''], ls, lm) (Object [Str ''AAA'', Str ''BBB''], rg)
   = Inr \<lparr>Hisse = Object [Str ''AAA'', Str ''BBB''], Sektor = take_rows [0, 1] ls,
          Piyasa = take_rows [0, 1] lm, Getiri = take_rows [0, 1] rg\<rparr>"
  by (simp add: pd_merge_def join_idx_def upt_2 Let_def)


lemma parse_market_value_good:
  "parse_market_value (Object [Str ''1.234.500,00'', Str ''0,00'']) = Inr (Float64 [Fin 1234500, Fin 0])"
  by (simp add: parse_market_value_def ebind_def str_accessor_ok_def str_replace_def parse_eval
      f64_eval)

lemma fetch_good: "fetch_and_process_data (Inr tables_good) = (None, Some df_good)"
proof -
  have g: "getitem_list tables_good 6 = Inr return_table_example"
    by (simp add: getitem_list_def tables_good_def)
  have c: "classify (Fin (3602879701896397 / 144115188075855872)) = Some ''lime''"
    "classify (Fin (5764607523034235 / 576460752303423488)) = Some ''lightgreen''"
    by (simp_all add: classify_eval)
  show ?thesis
    by (simp add: fetch_and_process_data_def process_tables_def build_sector_good g
        build_return_example pd_merge_example parse_market_value_good ebind_def add_renk_def
        merged.defs dataframe.defs pd_cut_def float_values_def c[unfolded classify_def]
        df_good_def)
qed

lemma chart_rows_create_treemap:
  "chart_rows (create_treemap df)
   = map (\<lambda>i. \<lparr>row_path = [Str root_label, cells_of (Sektor df) ! i, cells_of (Hisse df) ! i],
                row_size = cells_of (Piyasa df) ! i,
                row_color = map cell_of_category (Renk df) ! i,
                row_custom = [cells_of (Getiri df) ! i, cells_of (Sektor df) ! i]\<rparr>)
       [0..<length (cells_of (Hisse df))]"
  by (simp add: chart_rows_def chart_row_at_def create_treemap_def entry_def df_column_def
      col_defs)

section \<open>Properties of the classifier, the join and the conversions\<close>

lemma classify_outside:
  assumes "x = NaN \<or> f64_less x (Fin (- 10)) \<or> f64_less (Fin 10) x"
  shows "classify x = None"
proof (cases x)
  case (Fin r)
  with assms have "r < - 10 \<or> 10 < r" by simp
  then show ?thesis
  proof
    assume "r < - 10"
    then show ?thesis by (simp add: Fin classify_eval)
  next
    assume "10 < r"
    then show ?thesis by (simp add: Fin classify_eval)
  qed
qed (simp_all add: classify_eval)

lemma classify_range: "classify x = None \<or> (\<exists>l. classify x = Some l \<and> l \<in> set color_labels)"
proof -
  have len: "length color_ranges = 7" "length color_labels = 6"
    by (simp_all add: color_ranges_def color_labels_def)
  have "searchsorted_left color_ranges x \<le> 7"
    using length_takeWhile_le[of "\<lambda>b. f64_less b x" color_ranges]
    by (simp add: searchsorted_left_def len)
  then show ?thesis
    by (auto simp: classify_def pd_cut1_def Let_def len)
qed

lemma unknown_key_not_label: "''(?)'' \<notin> set color_labels"
  by (simp add: color_labels_def)

lemma renk_add_renk:
  "Renk (add_renk df) = map classify (float_values (Getiri df))"
  by (simp add: add_renk_def merged.defs dataframe.defs pd_cut_def classify_def)

lemma row_color_create_treemap:
  "row_color (chart_row_at (create_treemap df) i) = map cell_of_category (Renk df) ! i"
  by (simp add: chart_row_at_def create_treemap_def entry_def df_column_def col_Renk_def
      col_Hisse_def col_Sektor_def col_Piyasa_def col_Getiri_def)

lemma cells_of_take_rows:
  "list_all (\<lambda>i. i < length (cells_of s)) idx
   \<Longrightarrow> cells_of (take_rows idx s) = map (\<lambda>i. cells_of s ! i) idx"
  by (cases s) (simp_all add: list_all_iff)

lemma count_matches:
  "length (filter (\<lambda>j. rk ! j = k) [0..<length rk]) = length (filter (\<lambda>x. x = k) rk)"
proof -
  have "filter (\<lambda>x. x = k) rk = filter (\<lambda>x. x = k) (map (\<lambda>j. rk ! j) [0..<length rk])"
    by (simp add: map_nth)
  also have "\<dots> = map (\<lambda>j. rk ! j) (filter (\<lambda>j. rk ! j = k) [0..<length rk])"
    by (simp add: filter_map comp_def)
  finally show ?thesis by simp
qed

lemma distinct_count:
  "distinct rk \<Longrightarrow> length (filter (\<lambda>x. x = k) rk) = (if k \<in> set rk then 1 else 0)"
  by (induction rk) auto

lemma join_idx_keys:
  "map (\<lambda>p. lk ! fst p) (join_idx lk rk)
   = concat (map (\<lambda>k. replicate (length (filter (\<lambda>x. x = k) rk)) k) lk)"
proof -
  have "map (\<lambda>p. lk ! fst p) (join_idx lk rk)
        = concat (map (\<lambda>i. replicate (length (filter (\<lambda>x. x = lk ! i) rk)) (lk ! i))
            [0..<length lk])"
    by (simp add: join_idx_def map_concat comp_def map_replicate_const count_matches)
  also have "\<dots> = concat (map (\<lambda>k. replicate (length (filter (\<lambda>x. x = k) rk)) k)
      (map (\<lambda>i. lk ! i) [0..<length lk]))"
    by (simp add: comp_def)
  finally show ?thesis by (simp add: map_nth)
qed

lemma join_idx_keys_distinct:
  assumes "distinct rk"
  shows "map (\<lambda>p. lk ! fst p) (join_idx lk rk) = filter (\<lambda>k. k \<in> set rk) lk"
  unfolding join_idx_keys
  by (induction lk) (simp_all add: distinct_count[OF assms])

lemma join_idx_pairs:
  "list_all (\<lambda>p. fst p < length lk \<and> snd p < length rk \<and> lk ! fst p = rk ! snd p)
     (join_idx lk rk)"
  by (auto simp: join_idx_def list_all_iff)



section \<open>The claims\<close>

subsection \<open>C1: the classifier at the bin boundaries\<close>

text \<open>
  C1 states that \<open>classify(-5.0)\<close> is mild_negative and not deep_negative. The bins are
  closed on the right, so \<open>-5.0\<close>, the right edge of the first bin \<open>(-10, -5]\<close>, is
  deep_negative: the claim fails there.
\<close>

theorem C1_counterexample:
  "classify (Fin (- 5)) \<noteq> Some mild_negative"
  by (simp add: classify_eval mild_negative_def)

text \<open>
  C1 as amended: \<open>classify(-5.0)\<close> is deep_negative, \<open>classify(0.0)\<close> is
  near_zero_negative, \<open>classify(0.01)\<close> is near_zero_positive and \<open>classify(15.0)\<close> is
  unclassified; every value equal to the right edge of a bin belongs to that bin, and
  \<open>-10\<close>, the left edge of the first bin, is unclassified.
\<close>

theorem C1_boundaries:
  "classify (Fin (- 5)) = Some deep_negative
   \<and> classify (Fin 0) = Some near_zero_negative
   \<and> classify (round64 (1 / 100)) = Some near_zero_positive
   \<and> classify (Fin 15) = None
   \<and> map classify (tl color_ranges) = map Some color_labels
   \<and> classify (hd color_ranges) = None"
  by (simp add: classify_eval round64_hundredth deep_negative_def near_zero_negative_def
      near_zero_positive_def)

subsection \<open>C2: the two paths of the return column\<close>






subsection \<open>C3: the locale numeric parse of the market value column\<close>

lemma concat_digits:
  "list_all (list_all is_digit) gs \<Longrightarrow> list_all is_digit (concat gs)"
  by (induction gs) simp_all

lemma clean_region:
  assumes "region_ok r"
  shows "str_replace (CHR '','') ''.'' (str_replace (CHR ''.'') [] (region_string r))
         = concat (fst r) @ ''.'' @ snd r"
proof -
  from assms have gs: "list_all (list_all is_digit) (fst r)" and f: "list_all is_digit (snd r)"
    by (simp_all add: region_ok_def)
  have cg: "list_all is_digit (concat (fst r))"
    using gs by (rule concat_digits)
  have f_dot: "str_replace (CHR ''.'') [] (snd r) = snd r"
    using f by (intro str_replace_absent digits_no_char not_digit_dot)
  have f_comma: "str_replace (CHR '','') ''.'' (snd r) = snd r"
    using f by (intro str_replace_absent digits_no_char not_digit_comma)
  have g_comma: "str_replace (CHR '','') ''.'' (concat (fst r)) = concat (fst r)"
    using cg by (intro str_replace_absent digits_no_char not_digit_comma)
  have c1: "str_replace (CHR ''.'') [] '','' = '',''"
    by (simp add: str_replace_def)
  have c2: "str_replace (CHR '','') ''.'' '','' = ''.''"
    by (simp add: str_replace_def)
  have "str_replace (CHR ''.'') [] (region_string r) = concat (fst r) @ '','' @ snd r"
    by (simp add: region_string_def str_replace_append str_replace_Cons
        join_with_dot_removed[OF gs] f_dot)
  then show ?thesis
    by (simp add: str_replace_append str_replace_Cons g_comma f_comma)
qed

lemma region_converts:
  assumes "region_ok r"
  shows "float_of_string (str_replace (CHR '','') ''.'' (str_replace (CHR ''.'') [] (region_string r)))
         = Some (region_value r)"
proof -
  from assms have "list_all is_digit (concat (fst r))" "concat (fst r) \<noteq> []"
    "list_all is_digit (snd r)"
    by (simp_all add: region_ok_def concat_digits)
  then show ?thesis
    unfolding clean_region[OF assms] region_value_def
    by (rule float_of_string_decimal)
qed

text \<open>
  C3: on a column of region-formatted numerals, line 53 removes every thousands separator,
  then turns the decimal comma into a dot, then converts to \<open>float64\<close>; the result is the
  column of the doubles nearest to the numbers denoted, and no error is raised.
\<close>

theorem C3_locale_parse:
  assumes "list_all region_ok rs"
  shows "parse_market_value (Object (map (\<lambda>r. Str (region_string r)) rs))
           = Inr (Float64 (map region_value rs))
         \<and> list_all (\<lambda>r. str_replace (CHR '','') ''.'' (str_replace (CHR ''.'') [] (region_string r))
                          = concat (fst r) @ ''.'' @ snd r) rs"
proof -
  have conv: "list_all converts
      (map (cell_str_replace (CHR '','') ''.'')
        (map (cell_str_replace (CHR ''.'') []) (map (\<lambda>r. Str (region_string r)) rs)))"
    using assms by (simp add: list_all_iff region_converts)
  have vals: "map coerce_cell
      (map (cell_str_replace (CHR '','') ''.'')
        (map (cell_str_replace (CHR ''.'') []) (map (\<lambda>r. Str (region_string r)) rs)))
      = map region_value rs"
    using assms by (simp add: list_all_iff region_converts)
  have ok1: "str_accessor_ok (map (\<lambda>r. Str (region_string r)) rs)"
    by (rule str_accessor_ok_strings)
  have ok2: "str_accessor_ok
      (map (cell_str_replace (CHR ''.'') []) (map (\<lambda>r. Str (region_string r)) rs))"
    using str_accessor_ok_strings[of "\<lambda>r. str_replace (CHR ''.'') [] (region_string r)" rs]
    by (simp add: comp_def)
  have "parse_market_value (Object (map (\<lambda>r. Str (region_string r)) rs))
        = Inr (Float64 (map region_value rs))"
    using conv vals ok1 ok2 by (simp add: parse_market_value_def ebind_def)
  moreover have "list_all (\<lambda>r. str_replace (CHR '','') ''.'' (str_replace (CHR ''.'') [] (region_string r))
                          = concat (fst r) @ ''.'' @ snd r) rs"
    using assms by (simp add: list_all_iff clean_region)
  ultimately show ?thesis by simp
qed

theorem C3_locale_parse_witness:
  "list_all region_ok [([''1'', ''234''], ''56''), ([''0''], ''01'')]
   \<and> parse_market_value (Object [Str ''1.234,56'', Str ''0,01''])
       = Inr (Float64 [Fin (2714826150374277 / 2199023255552),
                       Fin (5764607523034235 / 576460752303423488)])"
  using C3_locale_parse [of "[([''1'', ''234''], ''56''), ([''0''], ''01'')]"]
  by (simp add: region_ok_def region_string_def region_value_def is_digit_def digits_val_def
      digit_val_def f64_eval)

subsection \<open>C4: the merge is an inner join on the ticker\<close>

text \<open>
  C4: with no duplicate ticker on either side, the merge keeps exactly one row per ticker
  of the intersection of the two ticker sets and no other row, so its size is the size of
  the intersection and at most the size of either input; every row it keeps pairs a sector
  row and a return row of the same ticker.
\<close>

theorem C4_inner_join:
  assumes "distinct (cells_of lk)" and "distinct (cells_of rk)"
    and "\<not> key_dtype_conflict lk rk"
  shows "\<exists>m ps. pd_merge (lk, ls, lm) (rk, rg) = Inr m
      \<and> distinct (cells_of (Hisse m))
      \<and> set (cells_of (Hisse m)) = set (cells_of lk) \<inter> set (cells_of rk)
      \<and> length (cells_of (Hisse m)) = card (set (cells_of lk) \<inter> set (cells_of rk))
      \<and> length (cells_of (Hisse m)) \<le> min (length (cells_of lk)) (length (cells_of rk))
      \<and> list_all (\<lambda>p. fst p < length (cells_of lk) \<and> snd p < length (cells_of rk)
                      \<and> cells_of lk ! fst p = cells_of rk ! snd p) ps
      \<and> Hisse m = take_rows (map fst ps) lk
      \<and> Sektor m = take_rows (map fst ps) ls
      \<and> Piyasa m = take_rows (map fst ps) lm
      \<and> Getiri m = take_rows (map snd ps) rg"
proof -
  define ps where "ps = join_idx (cells_of lk) (cells_of rk)"
  define m where "m = \<lparr>Hisse = take_rows (map fst ps) lk, Sektor = take_rows (map fst ps) ls,
    Piyasa = take_rows (map fst ps) lm, Getiri = take_rows (map snd ps) rg\<rparr>"
  have mrg: "pd_merge (lk, ls, lm) (rk, rg) = Inr m"
    using assms(3) by (simp add: pd_merge_def m_def ps_def Let_def)
  have pairs: "list_all (\<lambda>p. fst p < length (cells_of lk) \<and> snd p < length (cells_of rk)
                      \<and> cells_of lk ! fst p = cells_of rk ! snd p) ps"
    unfolding ps_def by (rule join_idx_pairs)
  then have "list_all (\<lambda>i. i < length (cells_of lk)) (map fst ps)"
    by (simp add: list_all_iff)
  then have "cells_of (Hisse m) = map (\<lambda>i. cells_of lk ! i) (map fst ps)"
    by (simp add: m_def cells_of_take_rows)
  then have keys: "cells_of (Hisse m) = filter (\<lambda>k. k \<in> set (cells_of rk)) (cells_of lk)"
    using join_idx_keys_distinct[OF assms(2), of "cells_of lk"]
    by (simp add: ps_def comp_def)
  have d: "distinct (cells_of (Hisse m))"
    using assms(1) by (simp add: keys)
  have s: "set (cells_of (Hisse m)) = set (cells_of lk) \<inter> set (cells_of rk)"
    by (auto simp: keys)
  have c: "length (cells_of (Hisse m)) = card (set (cells_of lk) \<inter> set (cells_of rk))"
    using distinct_card[OF d] s by simp
  have "card (set (cells_of lk) \<inter> set (cells_of rk)) \<le> card (set (cells_of lk))"
    by (rule card_mono) simp_all
  moreover have "card (set (cells_of lk) \<inter> set (cells_of rk)) \<le> card (set (cells_of rk))"
    by (rule card_mono) simp_all
  ultimately have le: "length (cells_of (Hisse m)) \<le> min (length (cells_of lk)) (length (cells_of rk))"
    using c distinct_card[OF assms(1)] distinct_card[OF assms(2)] by simp
  have "Hisse m = take_rows (map fst ps) lk" "Sektor m = take_rows (map fst ps) ls"
    "Piyasa m = take_rows (map fst ps) lm" "Getiri m = take_rows (map snd ps) rg"
    by (simp_all add: m_def)
  with mrg d s c le pairs show ?thesis by blast
qed

lemma upt_3: "[0..<3] = [0, 1, 2]"
  by (simp add: upt_rec)

theorem C4_inner_join_witness:
  "distinct (cells_of (Object [Str ''A'', Str ''B'', Str ''C'']))
   \<and> distinct (cells_of (Object [Str ''B'', Str ''C'', Str ''D'']))
   \<and> \<not> key_dtype_conflict (Object [Str ''A'', Str ''B'', Str ''C''])
         (Object [Str ''B'', Str ''C'', Str ''D''])
   \<and> pd_merge
        (Object [Str ''A'', Str ''B'', Str ''C''], Object [Str ''S1'', Str ''S2'', Str ''S3''],
         Object [Str ''1,00'', Str ''2,00'', Str ''3,00''])
        (Object [Str ''B'', Str ''C'', Str ''D''], Float64 [Fin 1, Fin 2, Fin 3])
       = Inr \<lparr>Hisse = Object [Str ''B'', Str ''C''], Sektor = Object [Str ''S2'', Str ''S3''],
              Piyasa = Object [Str ''2,00'', Str ''3,00''], Getiri = Float64 [Fin 1, Fin 2]\<rparr>
   \<and> card (set (cells_of (Object [Str ''A'', Str ''B'', Str ''C'']))
             \<inter> set (cells_of (Object [Str ''B'', Str ''C'', Str ''D'']))) = 2"
proof -
  let ?lk = "Object [Str ''A'', Str ''B'', Str ''C'']"
  let ?rk = "Object [Str ''B'', Str ''C'', Str ''D'']"
  let ?ls = "Object [Str ''S1'', Str ''S2'', Str ''S3'']"
  let ?lm = "Object [Str ''1,00'', Str ''2,00'', Str ''3,00'']"
  let ?rg = "Float64 [Fin 1, Fin 2, Fin 3]"
  have h1: "distinct (cells_of ?lk)" and h2: "distinct (cells_of ?rk)"
    and h3: "\<not> key_dtype_conflict ?lk ?rk"
    by simp_all
  have ev: "pd_merge (?lk, ?ls, ?lm) (?rk, ?rg)
       = Inr \<lparr>Hisse = Object [Str ''B'', Str ''C''], Sektor = Object [Str ''S2'', Str ''S3''],
              Piyasa = Object [Str ''2,00'', Str ''3,00''], Getiri = Float64 [Fin 1, Fin 2]\<rparr>"
    by (simp add: pd_merge_def join_idx_def upt_3 Let_def)
  from C4_inner_join [OF h1 h2 h3, of ?ls ?lm ?rg]
  obtain m ps where m: "pd_merge (?lk, ?ls, ?lm) (?rk, ?rg) = Inr m"
    and c: "length (cells_of (Hisse m)) = card (set (cells_of ?lk) \<inter> set (cells_of ?rk))"
    by blast
  from m ev have "m = \<lparr>Hisse = Object [Str ''B'', Str ''C''], Sektor = Object [Str ''S2'', Str ''S3''],
              Piyasa = Object [Str ''2,00'', Str ''3,00''], Getiri = Float64 [Fin 1, Fin 2]\<rparr>"
    by simp
  with c have "card (set (cells_of ?lk) \<inter> set (cells_of ?rk)) = 2"
    by simp
  with h1 h2 h3 ev show ?thesis by blast
qed

subsection \<open>C5: returns outside the bins\<close>

text \<open>
  C5 states that the chart maps the unclassified state to a neutral colour. A record whose
  return is 15 leaves the classifier with the missing category, and the colour map of the
  chart has no colour for it.
\<close>

theorem C5_counterexample:
  "mapped_color
     (create_treemap (add_renk \<lparr>Hisse = Object [Str ''AAA''], Sektor = Object [Str ''Tech''],
        Piyasa = Float64 [Fin 1500], Getiri = Float64 [Fin 15]\<rparr>))
     (row_color (chart_row_at
        (create_treemap (add_renk \<lparr>Hisse = Object [Str ''AAA''], Sektor = Object [Str ''Tech''],
           Piyasa = Float64 [Fin 1500], Getiri = Float64 [Fin 15]\<rparr>)) 0))
   = None"
proof -
  have "classify (Fin 15) = None"
    by (simp add: classify_eval)
  then show ?thesis
    by (simp add: row_color_create_treemap renk_add_renk float_values_def)
qed

text \<open>
  C5 as amended: for a record whose return is below \<open>-10\<close>, above \<open>10\<close> or NaN, the
  classification raises no error and drops no row: the colour column has one entry per
  record, and the entry of that record is the missing category. The colour map of the
  chart has no colour for the missing category; its key \<open>(?)\<close> is a category the classifier
  never produces.
\<close>

theorem C5_unclassified:
  assumes "i < length (float_values (Getiri df))"
    and "x = float_values (Getiri df) ! i"
    and "x = NaN \<or> f64_less x (Fin (- 10)) \<or> f64_less (Fin 10) x"
  shows "length (Renk (add_renk df)) = length (float_values (Getiri df))
       \<and> Renk (add_renk df) ! i = None
       \<and> row_color (chart_row_at (create_treemap (add_renk df)) i) = Num NaN
       \<and> mapped_color (create_treemap (add_renk df))
            (row_color (chart_row_at (create_treemap (add_renk df)) i)) = None
       \<and> classify y \<noteq> Some ''(?)''"
proof -
  have r: "Renk (add_renk df) ! i = None"
    using assms by (simp add: renk_add_renk classify_outside)
  have c: "row_color (chart_row_at (create_treemap (add_renk df)) i) = Num NaN"
    using assms(1) r by (simp add: row_color_create_treemap renk_add_renk)
  have "classify y \<noteq> Some ''(?)''"
    using classify_range[of y] unknown_key_not_label by auto
  with r c show ?thesis
    by (simp add: renk_add_renk)
qed

theorem C5_unclassified_witness:
  "(0::nat) < length (float_values (Getiri \<lparr>Hisse = Object [Str ''AAA''],
       Sektor = Object [Str ''Tech''], Piyasa = Float64 [Fin 1500], Getiri = Float64 [NaN]\<rparr>))
   \<and> Renk (add_renk \<lparr>Hisse = Object [Str ''AAA''], Sektor = Object [Str ''Tech''],
        Piyasa = Float64 [Fin 1500], Getiri = Float64 [NaN]\<rparr>) = [None]"
proof -
  let ?df = "\<lparr>Hisse = Object [Str ''AAA''], Sektor = Object [Str ''Tech''],
    Piyasa = Float64 [Fin 1500], Getiri = Float64 [NaN]\<rparr>"
  have h: "0 < length (float_values (Getiri ?df))"
    by (simp add: float_values_def)
  have x: "NaN = float_values (Getiri ?df) ! 0"
    by (simp add: float_values_def)
  from C5_unclassified [OF h x, of "Fin 0"]
  have "length (Renk (add_renk ?df)) = 1" and "Renk (add_renk ?df) ! 0 = None"
    by (simp_all add: float_values_def)
  then have "Renk (add_renk ?df) = [None]"
    by (cases "Renk (add_renk ?df)") simp_all
  with h show ?thesis by simp
qed

subsection \<open>C6: a table position out of range\<close>

lemma build_sector_short: "length tables \<le> 2 \<Longrightarrow> build_sector tables = Inl IndexError"
  by (simp add: build_sector_def getitem_list_def ebind_def)

lemma build_sector_error:
  "build_sector tables = Inl e \<Longrightarrow> e = IndexError \<or> e = KeyError"
proof -
  assume a: "build_sector tables = Inl e"
  show ?thesis
  proof (cases "2 < length tables")
    case False
    with a show ?thesis by (simp add: build_sector_short)
  next
    case True
    show ?thesis
    proof (rule getitem_cases[of "tables ! 2" col_Kod])
      assume "getitem (tables ! 2) col_Kod = Inl KeyError"
      with a True show ?thesis by (simp add: build_sector_def getitem_list_def ebind_def)
    next
      fix k assume k: "getitem (tables ! 2) col_Kod = Inr k"
      show ?thesis
      proof (rule getitem_cases[of "tables ! 2" col_Sektor])
        assume "getitem (tables ! 2) col_Sektor = Inl KeyError"
        with a True k show ?thesis by (simp add: build_sector_def getitem_list_def ebind_def)
      next
        fix s assume s: "getitem (tables ! 2) col_Sektor = Inr s"
        show ?thesis
        proof (rule getitem_cases[of "tables ! 2" col_Piyasa])
          assume "getitem (tables ! 2) col_Piyasa = Inl KeyError"
          with a True k s show ?thesis
            by (simp add: build_sector_def getitem_list_def ebind_def)
        next
          fix m assume "getitem (tables ! 2) col_Piyasa = Inr m"
          with a True k s show ?thesis
            by (simp add: build_sector_def getitem_list_def ebind_def)
        qed
      qed
    qed
  qed
qed

lemma process_tables_short:
  assumes "length tables \<le> 6"
  shows "process_tables tables
         = (case build_sector tables of Inl e \<Rightarrow> Inl e | Inr s \<Rightarrow> Inl IndexError)"
  using assms by (simp add: process_tables_def getitem_list_def ebind_def split: sum.splits)

text \<open>
  C6 states that a table sequence without position 2 or position 6 makes the pipeline fail
  with an error kind of its own. With three tables, position 6 is out of range; when the
  third table lacks the ticker column, the exception reported is the KeyError that a page
  with all seven tables and the same missing column gives, and the caller receives None,
  as it does when the HTTP request fails.
\<close>

theorem C6_counterexample:
  "fetch_and_process_data (Inr [[], [], [(''Ad'', Object [Str ''x''])]]) = (Some KeyError, None)
   \<and> fetch_and_process_data
        (Inr [[], [], [(''Ad'', Object [Str ''x''])], [], [], [], []]) = (Some KeyError, None)
   \<and> snd (fetch_and_process_data (Inr [])) = snd (fetch_and_process_data (Inl RequestException))"
  by (simp add: fetch_and_process_data_def process_tables_def build_sector_def
      getitem_list_def getitem_def ebind_def col_Kod_def)

text \<open>
  C6 as amended: for every table sequence in which position 2 or position 6 is out of
  range, the pipeline builds no output: \<open>fetch_and_process_data\<close> returns None, what it
  returns on every other failure too. The exception its handler reports is IndexError when
  position 2 is out of range, and when position 6 is out of range and the sector table has
  its three columns; otherwise it is the KeyError of the missing column.
\<close>

theorem C6_no_output:
  assumes "length tables \<le> 6"
  shows "snd (fetch_and_process_data (Inr tables)) = None
       \<and> snd (fetch_and_process_data (Inr tables)) = snd (fetch_and_process_data (Inl e))
       \<and> (case build_sector tables of
             Inr s \<Rightarrow> fst (fetch_and_process_data (Inr tables)) = Some IndexError
           | Inl e' \<Rightarrow> fst (fetch_and_process_data (Inr tables)) = Some e'
                       \<and> (e' = IndexError \<or> e' = KeyError)
                       \<and> (if length tables \<le> 2 then e' = IndexError else e' = KeyError))"
proof (cases "build_sector tables")
  case (Inl e')
  have k: "e' = IndexError \<or> e' = KeyError"
    using Inl by (rule build_sector_error)
  have "if length tables \<le> 2 then e' = IndexError else e' = KeyError"
  proof (cases "length tables \<le> 2")
    case True
    with Inl show ?thesis by (simp add: build_sector_short)
  next
    case False
    have "e' \<noteq> IndexError"
    proof
      assume "e' = IndexError"
      with Inl False show False
        by (rule_tac getitem_cases[of "tables ! 2" col_Kod];
            rule_tac getitem_cases[of "tables ! 2" col_Sektor];
            rule_tac getitem_cases[of "tables ! 2" col_Piyasa])
           (simp_all add: build_sector_def getitem_list_def ebind_def)
    qed
    with k False show ?thesis by simp
  qed
  with Inl k show ?thesis
    by (simp add: fetch_and_process_data_def process_tables_short[OF assms] ebind_def)
next
  case (Inr s)
  then show ?thesis
    by (simp add: fetch_and_process_data_def process_tables_short[OF assms] ebind_def)
qed

theorem C6_no_output_witness:
  "length ([] :: table list) \<le> 6
   \<and> fetch_and_process_data (Inr []) = (Some IndexError, None)"
  using C6_no_output [of "[]" RequestException]
  by (simp add: build_sector_short prod_eq_iff)

subsection \<open>C7: a market value that does not parse\<close>




subsection \<open>C8: the hierarchy and the sizes of the chart\<close>

text \<open>
  C8 states that a record whose market value is zero or negative is excluded or floored.
  The first example page gives BBB the market value \<open>0,00\<close>: the pipeline returns its row
  and the chart takes it with the size 0. A market value of \<open>-5\<close> in the same place is
  taken with the size \<open>-5\<close>.
\<close>

theorem C8_counterexample:
  "fetch_and_process_data (Inr tables_good) = (None, Some df_good)
   \<and> map row_size (chart_rows (create_treemap df_good)) = [Num (Fin 1234500), Num (Fin 0)]
   \<and> map row_size (chart_rows (create_treemap (df_good\<lparr>Piyasa := Float64 [Fin 1234500, Fin (- 5)]\<rparr>)))
       = [Num (Fin 1234500), Num (Fin (- 5))]"
  by (simp add: fetch_good chart_rows_create_treemap upt_2) (simp add: df_good_def)

text \<open>
  C8 as amended: for every classified frame, \<open>create_treemap\<close> hands the frame to plotly
  unchanged, under a path of three levels: the fixed root label, then the sector column,
  then the ticker column. Every record is handed over exactly once, in order, with its
  market value as its size as it stands: a zero or negative market value is neither
  excluded nor floored.
\<close>

theorem C8_hierarchy:
  "tm_data_frame (create_treemap df) = df
   \<and> tm_path (create_treemap df) = [Constant root_label, Column col_Sektor, Column col_Hisse]
   \<and> tm_values (create_treemap df) = col_Piyasa
   \<and> chart_rows (create_treemap df)
       = map (\<lambda>i. \<lparr>row_path = [Str root_label, cells_of (Sektor df) ! i, cells_of (Hisse df) ! i],
                    row_size = cells_of (Piyasa df) ! i,
                    row_color = map cell_of_category (Renk df) ! i,
                    row_custom = [cells_of (Getiri df) ! i, cells_of (Sektor df) ! i]\<rparr>)
           [0..<length (cells_of (Hisse df))]"
  by (simp add: chart_rows_create_treemap) (simp add: create_treemap_def)

subsection \<open>C9: the hover and label templates\<close>


subsection \<open>C10: a return string that cannot be coerced\<close>

lemma join_idx_member:
  "a < length lk \<Longrightarrow> b < length rk \<Longrightarrow> rk ! b = lk ! a \<Longrightarrow> (a, b) \<in> set (join_idx lk rk)"
  by (auto simp: join_idx_def)

lemma is_Str_cell_str_replace: "is_Str (cell_str_replace old new c) = is_Str c"
  by (cases c) simp_all

lemma build_return_coerced:
  assumes k: "getitem rt col_Kod = Inr k"
    and g: "getitem rt col_Gunluk = Inr (Object cs)"
    and s: "list_ex is_Str cs"
  shows "build_return rt
         = Inr (k, Float64 (map (\<lambda>c. fdiv100 (coerce_cell
                  (cell_str_replace (CHR '','') ''.'' (cell_str_replace (CHR ''%'') [] c)))) cs))"
proof -
  have ok1: "str_accessor_ok cs"
    using s by (simp add: str_accessor_ok_def)
  have "list_ex is_Str (map (cell_str_replace (CHR ''%'') []) cs)"
    using s by (simp add: list_ex_iff is_Str_cell_str_replace)
  then have ok2: "str_accessor_ok (map (cell_str_replace (CHR ''%'') []) cs)"
    by (simp add: str_accessor_ok_def)
  have p: "return_primary rt = Inl TypeError"
    using k g s by (simp add: return_primary_def ebind_def)
  have "return_fallback rt
        = Inr (k, Float64 (map (\<lambda>c. fdiv100 (coerce_cell
                  (cell_str_replace (CHR '','') ''.'' (cell_str_replace (CHR ''%'') [] c)))) cs))"
    using k g ok1 ok2
    by (simp add: return_fallback_def clean_percent_def ebind_def Let_def
        getitem_setitem_same getitem_setitem_other col_Kod_Gunluk comp_def)
  with p show ?thesis
    by (simp add: build_return_def)
qed

text \<open>
  C10: when the return column holds a string that still does not convert after the percent
  sign is removed and the comma turned into a dot, the fallback path raises no error and
  keeps the row, with NaN as its return. If the ticker of that row matches a sector row,
  the merge keeps the row with its NaN return, and the classifier gives it the missing
  category.
\<close>

theorem C10_unparseable_return:
  assumes "getitem rt col_Kod = Inr k"
    and "getitem rt col_Gunluk = Inr (Object cs)"
    and "i < length cs" and "cs ! i = Str s"
    and "float_of_string (clean_percent_string s) = None"
    and "i < length (cells_of k)"
    and "j < length (cells_of lk)" and "cells_of lk ! j = cells_of k ! i"
    and "\<not> key_dtype_conflict lk k"
  shows "\<exists>vs m p. build_return rt = Inr (k, Float64 vs)
      \<and> length vs = length cs \<and> vs ! i = NaN
      \<and> pd_merge (lk, ls, lm) (k, Float64 vs) = Inr m
      \<and> p < length (float_values (Getiri m))
      \<and> cells_of (Hisse m) ! p = cells_of k ! i
      \<and> float_values (Getiri m) ! p = NaN
      \<and> Renk (add_renk (m\<lparr>Piyasa := mv\<rparr>)) ! p = None"
proof -
  define vs where "vs = map (\<lambda>c. fdiv100 (coerce_cell
      (cell_str_replace (CHR '','') ''.'' (cell_str_replace (CHR ''%'') [] c)))) cs"
  define ps where "ps = join_idx (cells_of lk) (cells_of k)"
  define m where "m = \<lparr>Hisse = take_rows (map fst ps) lk, Sektor = take_rows (map fst ps) ls,
    Piyasa = take_rows (map fst ps) lm, Getiri = take_rows (map snd ps) (Float64 vs)\<rparr>"
  have "is_Str (cs ! i)"
    using assms(4) by simp
  with assms(3) have "list_ex is_Str cs"
    unfolding list_ex_iff using nth_mem by blast
  then have br: "build_return rt = Inr (k, Float64 vs)"
    unfolding vs_def using assms(1,2) by (intro build_return_coerced)
  have len: "length vs = length cs"
    by (simp add: vs_def)
  have nan: "vs ! i = NaN"
    using assms(3,4,5) by (simp add: vs_def clean_percent_string_def)
  have mrg: "pd_merge (lk, ls, lm) (k, Float64 vs) = Inr m"
    using assms(9) by (simp add: pd_merge_def m_def ps_def Let_def)
  have "(j, i) \<in> set ps"
    unfolding ps_def using assms(6,7,8) by (intro join_idx_member) simp_all
  then obtain p where p: "p < length ps" "ps ! p = (j, i)"
    by (auto simp: in_set_conv_nth)
  have rng: "list_all (\<lambda>i. i < length (cells_of lk)) (map fst ps)"
    using join_idx_pairs[of "cells_of lk" "cells_of k"] by (simp add: ps_def list_all_iff)
  have pl: "p < length (float_values (Getiri m))"
    using p(1) by (simp add: m_def float_values_def)
  have key: "cells_of (Hisse m) ! p = cells_of k ! i"
    using p assms(8) by (simp add: m_def cells_of_take_rows[OF rng])
  have ret: "float_values (Getiri m) ! p = NaN"
    using p nan by (simp add: m_def float_values_def)
  have "classify NaN = None"
    by (rule classify_outside) simp
  with pl ret have renk: "Renk (add_renk (m\<lparr>Piyasa := mv\<rparr>)) ! p = None"
    by (simp add: renk_add_renk)
  from br len nan mrg pl key ret renk show ?thesis
    by blast
qed

theorem C10_unparseable_return_witness:
  "getitem [(col_Kod, Object [Str ''AAA'', Str ''BBB'']),
            (col_Gunluk, Object [Str ''2,50%'', Str ''-''])] col_Kod
     = Inr (Object [Str ''AAA'', Str ''BBB''])
   \<and> float_of_string (clean_percent_string ''-'') = None
   \<and> build_return [(col_Kod, Object [Str ''AAA'', Str ''BBB'']),
                    (col_Gunluk, Object [Str ''2,50%'', Str ''-''])]
       = Inr (Object [Str ''AAA'', Str ''BBB''],
              Float64 [Fin (3602879701896397 / 144115188075855872), NaN])"
proof -
  let ?rt = "[(col_Kod, Object [Str ''AAA'', Str ''BBB'']),
              (col_Gunluk, Object [Str ''2,50%'', Str ''-''])]"
  let ?k = "Object [Str ''AAA'', Str ''BBB'']"
  have k: "getitem ?rt col_Kod = Inr ?k"
    by (simp add: getitem_def)
  have g: "getitem ?rt col_Gunluk = Inr (Object [Str ''2,50%'', Str ''-''])"
    by (simp add: getitem_def col_Kod_Gunluk[symmetric])
  have n: "float_of_string (clean_percent_string ''-'') = None"
    by (simp add: clean_percent_string_def str_replace_def parse_eval)
  have v: "float_of_string (clean_percent_string ''2,50%'') = Some (Fin (5 / 2))"
    by (simp add: clean_percent_string_def str_replace_def parse_eval f64_eval)
  have d: "fdiv100 (Fin (5 / 2)) = Fin (3602879701896397 / 144115188075855872)"
    by (simp add: f64_eval)
  have i1: "1 < length [Str ''2,50%'', Str ''-'']"
    and i2: "[Str ''2,50%'', Str ''-''] ! 1 = Str ''-''"
    and i3: "1 < length (cells_of ?k)"
    and i4: "cells_of ?k ! 1 = cells_of ?k ! 1"
    and i5: "\<not> key_dtype_conflict ?k ?k"
    by simp_all
  from C10_unparseable_return [OF k g i1 i2 n i3 i3 i4 i5, of "Object []" "Object []" "Float64 []"]
  obtain vs where vs: "build_return ?rt = Inr (?k, Float64 vs)"
    and len: "length vs = 2" and nan: "vs ! 1 = NaN"
    by auto
  have "build_return ?rt = Inr (?k, Float64 [fdiv100 (coerce_cell
      (Str (clean_percent_string ''2,50%''))), fdiv100 (coerce_cell
      (Str (clean_percent_string ''-'')))])"
    by (simp add: build_return_coerced[OF k g] clean_percent_string_def)
  with vs have "vs ! 0 = Fin (3602879701896397 / 144115188075855872)"
    by (auto simp: v n d simp del: fdiv100.simps)
  with len nan have "vs = [Fin (3602879701896397 / 144115188075855872), NaN]"
    by (cases vs; cases "tl vs") auto
  with vs k n show ?thesis by simp
qed


end
